theory Spec2Isabelle
  imports Complex_Main
begin

section \<open>Python values, errors and the external numerical routines\<close>

text \<open>
  The development embeds \<^verbatim>\<open>kinisi/diffusion.py\<close> and \<^verbatim>\<open>kinisi/matrix.py\<close>.
  Floating-point numbers are idealised as real numbers; the special values nan and inf
  have no counterpart. Python exceptions are values of the type \<open>error\<close>, and a function
  that can raise returns \<open>error + 'a\<close> with \<open>Inl\<close> for the exception.
  \<open>NotANumber\<close> is not an exception: it marks the one place where numpy would store nan
  or inf in a result array (a division by \<^verbatim>\<open>len(indices) = 0\<close>), which a real number
  cannot hold.
\<close>

datatype error =
  IndexError | ZeroDivisionError | ValueError | TypeError | AttributeError | LinAlgError
  | NotANumber

text \<open>Python's \<^verbatim>\<open>int(x)\<close> on a float truncates towards zero.\<close>

definition py_int :: "real \<Rightarrow> int" where
  "py_int x = (if 0 \<le> x then \<lfloor>x\<rfloor> else \<lceil>x\<rceil>)"

text \<open>
  A numpy array with the axes [atom, observation, dimension]: its shape, and the entry at
  each position. The shape is stored, as numpy stores it, so an array with no atoms still
  has a number of observations.
\<close>

record ndarray3 =
  shape0 :: nat
  shape1 :: nat
  shape2 :: nat
  item :: "nat \<Rightarrow> nat \<Rightarrow> nat \<Rightarrow> real"

text \<open>
  The routines of numpy, scipy and scikit-learn that the code calls and whose results it
  only passes on are parameters of the model: the stream of raw draws of the global random
  state (\<open>randint k\<close> is the \<open>k\<close>-th draw), the percentile and median of a sample, and the
  p-values of the two normality tests. Every theorem below holds for all of them.
\<close>

record numerics =
  randint :: "nat \<Rightarrow> nat"
  percentile :: "real list \<Rightarrow> real \<Rightarrow> real"
  median :: "real list \<Rightarrow> real"
  shapiro_p :: "real list \<Rightarrow> real"
  normaltest_p :: "real list \<Rightarrow> real"

text \<open>\<^verbatim>\<open>np.mean\<close> of a non-empty one-dimensional array.\<close>

definition np_mean :: "real list \<Rightarrow> real" where
  "np_mean xs = sum_list xs / real (length xs)"

text \<open>
  \<^verbatim>\<open>sklearn.utils.resample(xs, n_samples=n)\<close> draws \<open>n\<close> entries of \<open>xs\<close> with
  replacement; \<open>c\<close> is the position in the stream of draws. On an empty array it raises
  ValueError (the guard is in \<open>resampled_means\<close>).
\<close>

definition resample :: "numerics \<Rightarrow> nat \<Rightarrow> real list \<Rightarrow> nat \<Rightarrow> real list" where
  "resample nu c xs n = map (\<lambda>j. xs ! (randint nu (c + j) mod length xs)) [0..<n]"

text \<open>
  The list comprehension \<^verbatim>\<open>[np.mean(resample(xs, n_samples=n)) for j in range(count)]\<close>,
  with the position in the stream of draws after it.
\<close>

definition resampled_means ::
  "numerics \<Rightarrow> nat \<Rightarrow> real list \<Rightarrow> nat \<Rightarrow> nat \<Rightarrow> error + real list \<times> nat" where
  "resampled_means nu c xs n count =
     (if count = 0 then Inr ([], c)
      else if xs = [] then Inl ValueError
      else Inr (map (\<lambda>j. np_mean (resample nu (c + j * n) xs n)) [0..<count], c + count * n))"

section \<open>The growable distribution\<close>

text \<open>
  Modelled from the spec: the class \<^verbatim>\<open>Distribution\<close> of \<^verbatim>\<open>kinisi/distribution.py\<close>,
  which is not among the sources (only its tests are). The model follows sections 3 and
  4.1 of the specification: an append-only bag of samples, two percentile points checked
  at construction, and a normality flag recomputed by every \<^verbatim>\<open>add_samples\<close>. The name
  of a distribution is a label only and is left out.
\<close>

record distribution =
  samples :: "real list"
  ci_points :: "real list"
  normal :: bool

text \<open>
  Modelled from the spec: \<^verbatim>\<open>check_normality\<close>. Fewer than 3 samples are not normal; up
  to 5000 samples are normal iff the Shapiro-Wilk p-value exceeds 0.05; more than 5000
  iff the omnibus test's p-value does.
\<close>

definition check_normality :: "numerics \<Rightarrow> real list \<Rightarrow> bool" where
  "check_normality nu xs =
     (if length xs < 3 then False
      else if length xs \<le> 5000 then 0.05 < shapiro_p nu xs
      else 0.05 < normaltest_p nu xs)"

text \<open>Modelled from the spec: \<^verbatim>\<open>size\<close>, the current sample count.\<close>

definition size_of :: "distribution \<Rightarrow> nat" where
  "size_of d = length (samples d)"

text \<open>Modelled from the spec: \<^verbatim>\<open>add_samples\<close> appends and recomputes the flag.\<close>

definition add_samples :: "numerics \<Rightarrow> distribution \<Rightarrow> real list \<Rightarrow> distribution" where
  "add_samples nu d vs =
     d\<lparr>samples := samples d @ vs, normal := check_normality nu (samples d @ vs)\<rparr>"

text \<open>
  Modelled from the spec: the constructor \<^verbatim>\<open>Distribution(samples, name, ci_points)\<close>.
  The two percentile points must lie in [0, 100] in ascending order, else the
  construction fails with a validation error.
\<close>

definition Distribution :: "numerics \<Rightarrow> real list \<Rightarrow> real list \<Rightarrow> error + distribution" where
  "Distribution nu vs ci =
     (if length ci = 2 \<and> 0 \<le> ci ! 0 \<and> ci ! 0 < ci ! 1 \<and> ci ! 1 \<le> 100
      then Inr (add_samples nu \<lparr>samples = [], ci_points = ci, normal = False\<rparr> vs)
      else Inl ValueError)"

text \<open>
  Modelled from the spec: the attribute \<^verbatim>\<open>n\<close>, the median of the current samples, and
  \<^verbatim>\<open>None\<close> for an empty distribution.
\<close>

definition n_of :: "numerics \<Rightarrow> distribution \<Rightarrow> real option" where
  "n_of nu d = (if samples d = [] then None else Some (median nu (samples d)))"

section \<open>The bootstrap resampler\<close>

text \<open>
  The arguments of \<^verbatim>\<open>msd_bootstrap\<close> and \<^verbatim>\<open>mscd_bootstrap\<close> after the data, with their
  defaults. The flag \<^verbatim>\<open>progress\<close> only wraps the loop's range in a progress bar and is
  left out.
\<close>

record params =
  n_resamples :: int
  samples_freq :: int
  confidence_interval :: "real list option"
  max_resamples :: int
  bootstrap_multiplier :: int


definition ci_of :: "params \<Rightarrow> real list" where
  "ci_of p = (case confidence_interval p of None \<Rightarrow> [2.5, 97.5] | Some ci \<Rightarrow> ci)"

text \<open>
  The state the loops thread: the position in the stream of random draws, and the
  warnings issued so far.
\<close>

record run_state =
  cursor :: nat
  warnings :: "string list"

definition normality_warning :: string where
  "normality_warning = ''The maximum number of resamples has been reached, and the distribution is not yet normal. The distribution will be treated as normal.''"

text \<open>
  Lines 82-83: \<^verbatim>\<open>int(max_obs / dt_int * n_atoms / samples_freq) * bootstrap_multiplier\<close>
  with \<^verbatim>\<open>dt_int = max_obs - n_obs + 1\<close>. Both divisions raise on a zero divisor.
\<close>

definition n_samples_msd :: "nat \<Rightarrow> nat \<Rightarrow> nat \<Rightarrow> int \<Rightarrow> int \<Rightarrow> error + int" where
  "n_samples_msd max_obs n_obs n_atoms sf bm =
     (let dt_int = int max_obs - int n_obs + 1 in
      if dt_int = 0 \<or> sf = 0 then Inl ZeroDivisionError
      else Inr (py_int (real max_obs / real_of_int dt_int * real n_atoms / real_of_int sf) * bm))"

text \<open>Lines 179-180: \<^verbatim>\<open>int(max_obs / dt_int / samples_freq) * bootstrap_multiplier\<close>.\<close>

definition n_samples_mscd :: "nat \<Rightarrow> nat \<Rightarrow> int \<Rightarrow> int \<Rightarrow> error + int" where
  "n_samples_mscd max_obs n_obs sf bm =
     (let dt_int = int max_obs - int n_obs + 1 in
      if dt_int = 0 \<or> sf = 0 then Inl ZeroDivisionError
      else Inr (py_int (real max_obs / real_of_int dt_int / real_of_int sf) * bm))"

text \<open>
  Line 75 and the argument of \<^verbatim>\<open>resample\<close>:
  \<^verbatim>\<open>np.sum(displacements[i] ** 2, axis=2).flatten()\<close>, one value per atom and
  observation.
\<close>

definition d_squared :: "ndarray3 \<Rightarrow> real list" where
  "d_squared a =
     concat (map (\<lambda>p. map (\<lambda>ob. \<Sum>k\<leftarrow>[0..<shape2 a]. (item a p ob k)\<^sup>2) [0..<shape1 a])
       [0..<shape0 a])"

text \<open>
  Lines 93-102: the loop that adds batches of 100 resampled means while the distribution
  is not normal and its size is below \<open>cap = max_resamples - n_resamples\<close>.
\<close>

function grow ::
  "numerics \<Rightarrow> real list \<Rightarrow> nat \<Rightarrow> int \<Rightarrow> distribution \<times> nat \<Rightarrow> error + distribution \<times> nat" where
  "grow nu xs n cap (d, c) =
     (if \<not> normal d \<and> int (size_of d) < cap then
        (case resampled_means nu c xs n 100 of
           Inl e \<Rightarrow> Inl e
         | Inr (ms, c') \<Rightarrow> grow nu xs n cap (add_samples nu d ms, c'))
      else Inr (d, c))"
  by pat_completeness auto
termination
  by (relation "measure (\<lambda>(nu, xs, n, cap, d, c). nat (cap - int (size_of d)))")
    (auto simp: resampled_means_def add_samples_def size_of_def split: if_splits)

text \<open>
  Lines 86-106 (and 183-203, the same text): the initial batch, the distribution, the
  loop, and the test that issues the warning. The result is the final distribution,
  whether the warning was issued, and the position in the stream of draws.
\<close>

definition bootstrap_distribution ::
  "numerics \<Rightarrow> params \<Rightarrow> real list \<Rightarrow> int \<Rightarrow> nat \<Rightarrow> error + distribution \<times> bool \<times> nat" where
  "bootstrap_distribution nu p xs ns c =
     (case resampled_means nu c xs (nat ns) (nat (n_resamples p)) of
        Inl e \<Rightarrow> Inl e
      | Inr (ms, c1) \<Rightarrow>
          (case Distribution nu ms (ci_of p) of
             Inl e \<Rightarrow> Inl e
           | Inr d0 \<Rightarrow>
               (case grow nu xs (nat ns) (max_resamples p - n_resamples p) (d0, c1) of
                  Inl e \<Rightarrow> Inl e
                | Inr (d, c2) \<Rightarrow>
                    Inr (d, max_resamples p - n_resamples p \<le> int (size_of d), c2))))"

text \<open>
  The three output arrays \<^verbatim>\<open>output_delta_t\<close>, \<^verbatim>\<open>mean_msd\<close> and \<^verbatim>\<open>err_msd\<close>.
\<close>

type_synonym arrays = "real list \<times> real list \<times> real list"

text \<open>\<^verbatim>\<open>np.append\<close> on each of the three arrays, and the state after the interval.\<close>

definition append_record ::
  "arrays \<times> run_state \<Rightarrow> real \<times> real \<times> real \<Rightarrow> bool \<Rightarrow> nat \<Rightarrow> arrays \<times> run_state" where
  "append_record acc r w c =
     (case (acc, r) of
        (((dts, means, errs), st), (dt, m, e)) \<Rightarrow>
          ((dts @ [dt], means @ [m], errs @ [e]),
           st\<lparr>cursor := c,
              warnings := warnings st @ (if w then [normality_warning] else [])\<rparr>))"

text \<open>
  Lines 107-111: the record of interval \<open>i\<close>. \<^verbatim>\<open>delta_t[i]\<close> raises IndexError beyond
  the end of \<^verbatim>\<open>delta_t\<close>; an empty distribution has no median, and the subtraction
  raises.
\<close>

definition msd_record ::
  "numerics \<Rightarrow> real list \<Rightarrow> nat \<Rightarrow> distribution \<Rightarrow> error + real \<times> real \<times> real" where
  "msd_record nu delta_t i d =
     (if length delta_t \<le> i then Inl IndexError
      else
        (case n_of nu d of
           None \<Rightarrow> Inl TypeError
         | Some m \<Rightarrow> Inr (delta_t ! i, m, percentile nu (samples d) (ci_points d ! 1) - m)))"

text \<open>The body of the loop of \<^verbatim>\<open>msd_bootstrap\<close> (lines 75-111) for the index \<open>i\<close>.\<close>

definition msd_step ::
  "numerics \<Rightarrow> params \<Rightarrow> real list \<Rightarrow> ndarray3 list \<Rightarrow> nat \<Rightarrow> nat \<Rightarrow>
   arrays \<times> run_state \<Rightarrow> error + arrays \<times> run_state" where
  "msd_step nu p delta_t displacements max_obs i acc =
     (let a = displacements ! i in
      case n_samples_msd max_obs (shape1 a) (shape0 a) (samples_freq p)
             (bootstrap_multiplier p) of
        Inl e \<Rightarrow> Inl e
      | Inr ns \<Rightarrow>
          if ns \<le> 1 then Inr acc
          else
            (case bootstrap_distribution nu p (d_squared a) ns (cursor (snd acc)) of
               Inl e \<Rightarrow> Inl e
             | Inr (d, w, c) \<Rightarrow>
                 (case msd_record nu delta_t i d of
                    Inl e \<Rightarrow> Inl e
                  | Inr r \<Rightarrow> Inr (append_record acc r w c))))"

text \<open>A \<^verbatim>\<open>for\<close> loop over a list of indices that stops at the first exception.\<close>

fun for_loop :: "(nat \<Rightarrow> 'a \<Rightarrow> error + 'a) \<Rightarrow> nat list \<Rightarrow> 'a \<Rightarrow> error + 'a" where
  "for_loop body [] acc = Inr acc"
| "for_loop body (i # js) acc =
     (case body i acc of Inl e \<Rightarrow> Inl e | Inr acc' \<Rightarrow> for_loop body js acc')"

text \<open>
  \<^verbatim>\<open>msd_bootstrap(delta_t, displacements, ...)\<close>, lines 64-112.
  \<^verbatim>\<open>displacements[0]\<close> raises IndexError on an empty list.
\<close>

definition msd_bootstrap ::
  "numerics \<Rightarrow> real list \<Rightarrow> ndarray3 list \<Rightarrow> params \<Rightarrow> run_state \<Rightarrow>
   error + arrays \<times> run_state" where
  "msd_bootstrap nu delta_t displacements p st =
     (case displacements of
        [] \<Rightarrow> Inl IndexError
      | a0 # _ \<Rightarrow>
          for_loop (msd_step nu p delta_t displacements (shape1 a0))
            [0..<length displacements] (([], [], []), st))"

text \<open>
  An integer index into an axis of length \<open>n\<close>: negative indices count from the end, and
  an index outside \<open>[-n, n)\<close> raises IndexError.
\<close>

definition py_index :: "nat \<Rightarrow> int \<Rightarrow> error + nat" where
  "py_index n j =
     (if 0 \<le> j \<and> j < int n then Inr (nat j)
      else if - int n \<le> j \<and> j < 0 then Inr (nat (j + int n))
      else Inl IndexError)"

fun take_rows :: "nat \<Rightarrow> int list \<Rightarrow> error + nat list" where
  "take_rows n [] = Inr []"
| "take_rows n (j # js) =
     (case py_index n j of
        Inl e \<Rightarrow> Inl e
      | Inr r \<Rightarrow> (case take_rows n js of Inl e \<Rightarrow> Inl e | Inr rs \<Rightarrow> Inr (r # rs)))"

text \<open>
  Lines 172-173 and the argument of \<^verbatim>\<open>resample\<close>:
  \<^verbatim>\<open>np.sum(np.sum(displacements[i][indices, :, :], axis=0) ** 2, axis=1).flatten()\<close>.
  With a list of indices the selected atoms are summed, and the result has one value per
  observation. With \<^verbatim>\<open>indices=None\<close> (the default) numpy reads the index \<^verbatim>\<open>None\<close>
  as a new axis: the sum over axis 0 removes that axis again, nothing is summed over the
  atoms, and the second sum runs over the observations, so the result has one value per
  atom and dimension.
\<close>

definition sq_chg_disp :: "ndarray3 \<Rightarrow> int list option \<Rightarrow> error + real list" where
  "sq_chg_disp a indices =
     (case indices of
        None \<Rightarrow>
          Inr (concat (map (\<lambda>p. map (\<lambda>k. \<Sum>ob\<leftarrow>[0..<shape1 a]. (item a p ob k)\<^sup>2)
                 [0..<shape2 a]) [0..<shape0 a]))
      | Some js \<Rightarrow>
          (case take_rows (shape0 a) js of
             Inl e \<Rightarrow> Inl e
           | Inr rs \<Rightarrow>
               Inr (map (\<lambda>ob. \<Sum>k\<leftarrow>[0..<shape2 a]. (\<Sum>r\<leftarrow>rs. item a r ob k)\<^sup>2)
                 [0..<shape1 a])))"

text \<open>
  Lines 204-210: the record of interval \<open>i\<close>. \<^verbatim>\<open>len(indices)\<close> raises TypeError when
  \<^verbatim>\<open>indices\<close> is \<^verbatim>\<open>None\<close>. Dividing by the length of an empty index list gives nan or
  inf in numpy, marked \<open>NotANumber\<close>.
\<close>

definition mscd_record ::
  "numerics \<Rightarrow> real list \<Rightarrow> int list option \<Rightarrow> nat \<Rightarrow> distribution \<Rightarrow>
   error + real \<times> real \<times> real" where
  "mscd_record nu delta_t indices i d =
     (if length delta_t \<le> i then Inl IndexError
      else
        (case indices of
           None \<Rightarrow> Inl TypeError
         | Some js \<Rightarrow>
             (case n_of nu d of
                None \<Rightarrow> Inl TypeError
              | Some m \<Rightarrow>
                  if js = [] then Inl NotANumber
                  else
                    Inr (delta_t ! i, m / real (length js),
                         (percentile nu (samples d) (ci_points d ! 1) - m) / real (length js)))))"

text \<open>The body of the loop of \<^verbatim>\<open>mscd_bootstrap\<close> (lines 172-210) for the index \<open>i\<close>.\<close>

definition mscd_step ::
  "numerics \<Rightarrow> params \<Rightarrow> real list \<Rightarrow> ndarray3 list \<Rightarrow> int list option \<Rightarrow> nat \<Rightarrow> nat \<Rightarrow>
   arrays \<times> run_state \<Rightarrow> error + arrays \<times> run_state" where
  "mscd_step nu p delta_t displacements indices max_obs i acc =
     (let a = displacements ! i in
      case sq_chg_disp a indices of
        Inl e \<Rightarrow> Inl e
      | Inr xs \<Rightarrow>
          (case n_samples_mscd max_obs (shape1 a) (samples_freq p) (bootstrap_multiplier p) of
             Inl e \<Rightarrow> Inl e
           | Inr ns \<Rightarrow>
               if ns \<le> 1 then Inr acc
               else
                 (case bootstrap_distribution nu p xs ns (cursor (snd acc)) of
                    Inl e \<Rightarrow> Inl e
                  | Inr (d, w, c) \<Rightarrow>
                      (case mscd_record nu delta_t indices i d of
                         Inl e \<Rightarrow> Inl e
                       | Inr r \<Rightarrow> Inr (append_record acc r w c)))))"

text \<open>
  \<^verbatim>\<open>mscd_bootstrap(delta_t, displacements, indices=None, ...)\<close>, lines 161-211.
\<close>

definition mscd_bootstrap ::
  "numerics \<Rightarrow> real list \<Rightarrow> ndarray3 list \<Rightarrow> int list option \<Rightarrow> params \<Rightarrow> run_state \<Rightarrow>
   error + arrays \<times> run_state" where
  "mscd_bootstrap nu delta_t displacements indices p st =
     (case displacements of
        [] \<Rightarrow> Inl IndexError
      | a0 # _ \<Rightarrow>
          for_loop (mscd_step nu p delta_t displacements indices (shape1 a0))
            [0..<length displacements] (([], [], []), st))"

section \<open>Notions used to state the properties of the resampler\<close>












subsection \<open>Concrete inputs\<close>

text \<open>\<^verbatim>\<open>np.array\<close> of a rectangular nested list.\<close>

definition of_lists :: "real list list list \<Rightarrow> ndarray3" where
  "of_lists xs =
     \<lparr>shape0 = length xs,
      shape1 = (case xs of [] \<Rightarrow> 0 | x # _ \<Rightarrow> length x),
      shape2 = (case xs of [] \<Rightarrow> 0 | x # _ \<Rightarrow> (case x of [] \<Rightarrow> 0 | y # _ \<Rightarrow> length y)),
      item = (\<lambda>p ob k. xs ! p ! ob ! k)\<rparr>"

text \<open>
  \<^verbatim>\<open>np.percentile(xs, q)\<close> and \<^verbatim>\<open>np.median(xs)\<close> of a non-empty sample, by numpy's
  default method: linear interpolation between the two nearest ranks.
\<close>

definition np_percentile :: "real list \<Rightarrow> real \<Rightarrow> real" where
  "np_percentile xs q =
     (let s = sort xs; h = q / 100 * real (length xs - 1); lo = nat \<lfloor>h\<rfloor>;
          hi = min (lo + 1) (length xs - 1)
      in s ! lo + (h - real lo) * (s ! hi - s ! lo))"

definition np_median :: "real list \<Rightarrow> real" where
  "np_median xs =
     (let s = sort xs; n = length xs
      in if even n then (s ! (n div 2 - 1) + s ! (n div 2)) / 2 else s ! (n div 2))"

text \<open>
  Three choices of the external routines, all with numpy's percentile and median. \<open>nu0\<close>
  has a fixed stream of draws and normality tests that accept every sample; \<open>nu1\<close> differs
  in a Shapiro-Wilk test that rejects every sample; \<open>nu2\<close> differs in a stream of draws
  that repeats twelve indices.
\<close>

definition nu0 :: numerics where
  "nu0 = \<lparr>randint = (\<lambda>k. k * (k + 3) div 2), percentile = np_percentile, median = np_median,
          shapiro_p = (\<lambda>xs. 1), normaltest_p = (\<lambda>xs. 1)\<rparr>"


definition nu2 :: numerics where
  "nu2 = nu0\<lparr>randint := (\<lambda>k. [1, 3, 0, 4, 2, 6, 0, 4, 5, 2, 0, 4] ! (k mod 12))\<rparr>"

text \<open>
  Displacements of two atoms in two dimensions at three intervals, with 4, 3 and 2
  observations.
\<close>

definition disp0 :: "ndarray3 list" where
  "disp0 = [of_lists [[[1, 0], [0, 2], [2, 1], [1, 1]], [[0, 1], [3, 0], [1, 2], [0, 0]]],
            of_lists [[[1, 1], [2, 2], [3, 0]], [[0, 3], [1, 0], [2, 2]]],
            of_lists [[[2, 1], [4, 0]], [[1, 3], [2, 2]]]]"

definition p0 :: params where
  "p0 = \<lparr>n_resamples = 3, samples_freq = 2, confidence_interval = None,
         max_resamples = 103, bootstrap_multiplier = 1\<rparr>"

definition q0 :: params where
  "q0 = p0\<lparr>samples_freq := 1\<rparr>"

definition p5 :: params where
  "p5 = p0\<lparr>max_resamples := 5\<rparr>"



definition st0 :: run_state where
  "st0 = \<lparr>cursor = 0, warnings = []\<rparr>"

section \<open>The positive-definite repair (\<^verbatim>\<open>kinisi/matrix.py\<close>)\<close>

text \<open>
  A two-dimensional numpy array: its shape and the entry at each position.
\<close>

record ndarray2 =
  nrows :: nat
  ncols :: nat
  entry :: "nat \<Rightarrow> nat \<Rightarrow> real"

text \<open>\<^verbatim>\<open>np.array\<close> of a rectangular nested list.\<close>

definition of_rows :: "real list list \<Rightarrow> ndarray2" where
  "of_rows xs =
     \<lparr>nrows = length xs, ncols = (case xs of [] \<Rightarrow> 0 | r # _ \<Rightarrow> length r),
      entry = (\<lambda>i j. xs ! i ! j)\<rparr>"

text \<open>
  \<^verbatim>\<open>np.linalg.cholesky\<close> is a routine of numpy (LAPACK's \<^verbatim>\<open>potrf\<close> on the lower
  triangle). As numpy documents it, the routine does not check that its argument is
  symmetric and reads only the entries on and below the diagonal; it raises
  \<^verbatim>\<open>LinAlgError\<close> when a pivot is not positive and when the array is not square. It is
  modelled by the Cholesky recurrence in exact arithmetic: \<open>chol n A\<close> takes the pivot
  \<open>A 0 0\<close>, scales the column below it, subtracts the outer product of that column from
  the trailing block, and continues with the block. The factor is the same for every
  order of the operations, so the pivots and the outcome are those of the library's
  algorithm in exact arithmetic.
\<close>

fun chol :: "nat \<Rightarrow> (nat \<Rightarrow> nat \<Rightarrow> real) \<Rightarrow> error + (nat \<Rightarrow> nat \<Rightarrow> real)" where
  "chol 0 A = Inr (\<lambda>i j. 0)"
| "chol (Suc n) A =
     (if A 0 0 \<le> 0 then Inl LinAlgError
      else
        (let l = sqrt (A 0 0); c = (\<lambda>i. A (Suc i) 0 / l) in
         case chol n (\<lambda>i j. A (Suc i) (Suc j) - c i * c j) of
           Inl e \<Rightarrow> Inl e
         | Inr L \<Rightarrow>
             Inr (\<lambda>i j. if j = 0 then (if i = 0 then l else c (i - 1))
                        else if i = 0 then 0 else L (i - 1) (j - 1))))"

definition cholesky :: "ndarray2 \<Rightarrow> error + ndarray2" where
  "cholesky a =
     (if nrows a \<noteq> ncols a then Inl LinAlgError
      else
        (case chol (nrows a) (entry a) of
           Inl e \<Rightarrow> Inl e
         | Inr L \<Rightarrow> Inr \<lparr>nrows = nrows a, ncols = ncols a, entry = L\<rparr>))"

text \<open>
  \<^verbatim>\<open>check_positive_definite(matrix)\<close>, lines 45-56: the \<^verbatim>\<open>try\<close> returns True, the
  handler catches \<^verbatim>\<open>LinAlgError\<close> only and returns False, and any other exception
  propagates. The function is a function of the array's value and assigns to nothing.
\<close>

definition check_positive_definite :: "ndarray2 \<Rightarrow> error + bool" where
  "check_positive_definite matrix =
     (case cholesky matrix of
        Inr L \<Rightarrow> Inr True
      | Inl e \<Rightarrow> if e = LinAlgError then Inr False else Inl e)"

text \<open>
  The routines of statsmodels and numpy that \<^verbatim>\<open>find_nearest_positive_definite\<close> calls
  are parameters: \<^verbatim>\<open>correlation_tools.cov_nearest(matrix, method='clipped')\<close>,
  \<^verbatim>\<open>np.min(np.real(np.linalg.eigvals(A3)))\<close> and
  \<^verbatim>\<open>np.spacing(np.linalg.norm(matrix))\<close>. The first two may raise.
\<close>

record linalg =
  cov_nearest :: "ndarray2 \<Rightarrow> error + ndarray2"
  min_real_eigval :: "ndarray2 \<Rightarrow> error + real"
  spacing_norm :: "ndarray2 \<Rightarrow> real"

definition repair_warning :: string where
  "repair_warning = ''The estimated covariance matrix was not positive definite, the nearest positive definite matrix has been found and will be used.''"

text \<open>\<^verbatim>\<open>A3 += eye * v\<close>: \<open>v\<close> is added to every diagonal entry.\<close>

definition add_eye :: "ndarray2 \<Rightarrow> real \<Rightarrow> ndarray2" where
  "add_eye a v = a\<lparr>entry := (\<lambda>i j. entry a i j + (if i = j then v else 0))\<rparr>"

text \<open>
  Lines 37-40: the loop has no bound on its iterations, so the model is a partial
  function, and \<open>None\<close> stands for a loop that never ends.
\<close>

partial_function (option) repair_loop ::
  "linalg \<Rightarrow> real \<Rightarrow> ndarray2 \<Rightarrow> nat \<Rightarrow> (error + ndarray2) option" where
  "repair_loop la spacing A3 k =
     (case check_positive_definite A3 of
        Inl e \<Rightarrow> Some (Inl e)
      | Inr ok \<Rightarrow>
          if ok then Some (Inr A3)
          else
            (case min_real_eigval la A3 of
               Inl e \<Rightarrow> Some (Inl e)
             | Inr mineig \<Rightarrow>
                 repair_loop la spacing (add_eye A3 (- mineig * (real k)\<^sup>2 + spacing)) (k + 1)))"

text \<open>
  \<^verbatim>\<open>find_nearest_positive_definite(matrix)\<close>, lines 23-42. The result is the returned
  array with the warnings issued.
\<close>

definition find_nearest_positive_definite ::
  "linalg \<Rightarrow> ndarray2 \<Rightarrow> (error + ndarray2 \<times> string list) option" where
  "find_nearest_positive_definite la matrix =
     (case check_positive_definite matrix of
        Inl e \<Rightarrow> Some (Inl e)
      | Inr ok \<Rightarrow>
          if ok then Some (Inr (matrix, []))
          else
            (case cov_nearest la matrix of
               Inl e \<Rightarrow> Some (Inl e)
             | Inr A3 \<Rightarrow>
                 (case check_positive_definite A3 of
                    Inl e \<Rightarrow> Some (Inl e)
                  | Inr ok3 \<Rightarrow>
                      if ok3 then Some (Inr (A3, [repair_warning]))
                      else
                        (case repair_loop la (spacing_norm la matrix) A3 1 of
                           None \<Rightarrow> None
                         | Some (Inl e) \<Rightarrow> Some (Inl e)
                         | Some (Inr R) \<Rightarrow> Some (Inr (R, [repair_warning]))))))"

subsection \<open>Symmetric positive-definite matrices\<close>

text \<open>
  A square array is symmetric when it equals its transpose, and positive-definite when
  it is symmetric and its quadratic form is positive on every vector that is not zero.
\<close>

definition symmetric :: "ndarray2 \<Rightarrow> bool" where
  "symmetric a =
     (nrows a = ncols a \<and> (\<forall>i<nrows a. \<forall>j<nrows a. entry a i j = entry a j i))"

definition quad_form :: "ndarray2 \<Rightarrow> (nat \<Rightarrow> real) \<Rightarrow> real" where
  "quad_form a x = (\<Sum>i<nrows a. \<Sum>j<ncols a. x i * entry a i j * x j)"


text \<open>
  The symmetric array that has the lower triangle of \<open>a\<close>: above the diagonal it holds
  the mirrored entries.
\<close>

definition lower_entry :: "(nat \<Rightarrow> nat \<Rightarrow> real) \<Rightarrow> nat \<Rightarrow> nat \<Rightarrow> real" where
  "lower_entry A i j = (if j \<le> i then A i j else A j i)"

definition lower_symmetric :: "ndarray2 \<Rightarrow> ndarray2" where
  "lower_symmetric a = a\<lparr>entry := lower_entry (entry a)\<rparr>"

text \<open>The quadratic form of the leading \<open>n\<close> by \<open>n\<close> block, and its positivity.\<close>

definition qf :: "nat \<Rightarrow> (nat \<Rightarrow> nat \<Rightarrow> real) \<Rightarrow> (nat \<Rightarrow> real) \<Rightarrow> real" where
  "qf n A x = (\<Sum>i<n. \<Sum>j<n. x i * A i j * x j)"

definition qf_pos :: "nat \<Rightarrow> (nat \<Rightarrow> nat \<Rightarrow> real) \<Rightarrow> bool" where
  "qf_pos n A = (\<forall>x. (\<exists>i<n. x i \<noteq> 0) \<longrightarrow> 0 < qf n A x)"

subsection \<open>Concrete matrices\<close>




definition m_ones :: ndarray2 where
  "m_ones = of_rows [[1, 1], [1, 1]]"

text \<open>
  One choice of the external routines for \<open>m_ones\<close>: the projection returns its argument,
  the least eigenvalue of \<open>m_ones\<close> is 0, and the spacing is 1.
\<close>

definition la0 :: linalg where
  "la0 = \<lparr>cov_nearest = (\<lambda>a. Inr a), min_real_eigval = (\<lambda>a. Inr 0), spacing_norm = (\<lambda>a. 1)\<rparr>"

section \<open>The diffusion relationship (class \<^verbatim>\<open>Diffusion\<close>)\<close>

text \<open>
  Modelled from the spec: the units of the registry \<^verbatim>\<open>UREG\<close> (the package pint), which
  is not among the sources. A unit is represented by its size in SI base units, so that
  converting a magnitude from one unit to another of the same dimension multiplies it by
  the quotient of the sizes.
\<close>

type_synonym units = real

definition femtoseconds :: units where
  "femtoseconds = 1 / 10 ^ 15"

definition angstrom_squared :: units where
  "angstrom_squared = 1 / 10 ^ 20"

definition centimeter_squared_per_second :: units where
  "centimeter_squared_per_second = 1 / 10 ^ 4"

record quantity =
  magnitude :: real
  units_of :: units

text \<open>\<^verbatim>\<open>q.to(u)\<close>.\<close>

definition to_units :: "quantity \<Rightarrow> units \<Rightarrow> quantity" where
  "to_units q u = \<lparr>magnitude = magnitude q * units_of q / u, units_of = u\<rparr>"

text \<open>
  Modelled from the spec: a variable of the fit of the base class \<^verbatim>\<open>StraightLine\<close>
  (\<^verbatim>\<open>kinisi/relationships.py\<close>, not among the sources). By section 4.4 a variable is a
  point estimate after the construction and holds posterior samples after the sampling
  step. The uncertainty attached to a point estimate is left out.
\<close>

datatype variable = Point real | Samples "real list"

text \<open>
  The attribute \<^verbatim>\<open>diffusion_coefficient\<close>: a quantity after the construction, a
  distribution tagged with a unit after \<^verbatim>\<open>sample()\<close>.
\<close>

datatype coefficient = PointValue quantity | Posterior distribution units

record diffusion =
  variables :: "variable list"
  abscissa_unit :: units
  ordinate_unit :: units
  diffusion_coefficient :: coefficient

text \<open>
  \<^verbatim>\<open>Diffusion.__init__\<close>, lines 228-238. The constructor of the base class is the
  parameter \<open>fit\<close>: it yields the variables of the weighted least-squares line through the
  data, the slope first. Dividing a variable that is not a point estimate raises
  TypeError.
\<close>

definition Diffusion ::
  "(real list \<Rightarrow> real list \<Rightarrow> real list \<Rightarrow> variable list) \<Rightarrow>
   real list \<Rightarrow> real list \<Rightarrow> real list \<Rightarrow> units \<Rightarrow> units \<Rightarrow> error + diffusion" where
  "Diffusion fit delta_t msd msd_error delta_t_unit msd_unit =
     (case fit delta_t msd msd_error of
        [] \<Rightarrow> Inl IndexError
      | v # vs \<Rightarrow>
          (case v of
             Samples ss \<Rightarrow> Inl TypeError
           | Point s \<Rightarrow>
               Inr \<lparr>variables = v # vs, abscissa_unit = delta_t_unit, ordinate_unit = msd_unit,
                    diffusion_coefficient =
                      PointValue
                        (to_units \<lparr>magnitude = s / 6, units_of = msd_unit / delta_t_unit\<rparr>
                           centimeter_squared_per_second)\<rparr>))"

text \<open>
  \<^verbatim>\<open>Diffusion.sample\<close>, lines 254-259. The sampler \<^verbatim>\<open>self.mcmc\<close> of the base class is
  the parameter \<open>mcmc\<close>: it yields the variables after the sampling. A variable without
  samples has no attribute \<^verbatim>\<open>samples\<close>.
\<close>

definition sample ::
  "numerics \<Rightarrow> (diffusion \<Rightarrow> variable list) \<Rightarrow> diffusion \<Rightarrow> error + diffusion" where
  "sample nu mcmc self =
     (let vs = mcmc self;
          unit_conversion = \<lparr>magnitude = 1, units_of = ordinate_unit self / abscissa_unit self\<rparr>
      in
        case vs of
          [] \<Rightarrow> Inl IndexError
        | v # _ \<Rightarrow>
            (case v of
               Point s \<Rightarrow> Inl AttributeError
             | Samples ss \<Rightarrow>
                 (case Distribution nu
                         (map (\<lambda>s. s * magnitude
                                 (to_units unit_conversion centimeter_squared_per_second) / 6) ss)
                         [2.5, 97.5] of
                    Inl e \<Rightarrow> Inl e
                  | Inr D \<Rightarrow>
                      Inr (self\<lparr>variables := vs,
                             diffusion_coefficient :=
                               Posterior D centimeter_squared_per_second\<rparr>))))"

text \<open>
  The conversion of a slope to a diffusion coefficient as the specification words it:
  the slope divided by 6, converted from the unit of the ordinate over the unit of the
  abscissa to centimeter squared per second.
\<close>

definition slope_to_coefficient :: "units \<Rightarrow> units \<Rightarrow> real \<Rightarrow> quantity" where
  "slope_to_coefficient abscissa ordinate s =
     to_units \<lparr>magnitude = s / 6, units_of = ordinate / abscissa\<rparr> centimeter_squared_per_second"

text \<open>A fit with slope 6 and a sampler with the posterior slopes 6 and 12.\<close>

definition fit0 :: "real list \<Rightarrow> real list \<Rightarrow> real list \<Rightarrow> variable list" where
  "fit0 delta_t msd msd_error = [Point 6, Point 0]"

definition mcmc0 :: "diffusion \<Rightarrow> variable list" where
  "mcmc0 self = [Samples [6, 12], Samples [0, 0]]"

definition d0 :: diffusion where
  "d0 = \<lparr>variables = [Point 6, Point 0], abscissa_unit = femtoseconds,
         ordinate_unit = angstrom_squared,
         diffusion_coefficient =
           PointValue \<lparr>magnitude = 1 / 10, units_of = centimeter_squared_per_second\<rparr>\<rparr>"

section \<open>Properties of the bootstrap resampler\<close>

subsection \<open>The resampling loop\<close>

declare grow.simps [simp del]



lemma add_samples_simps [simp]:
  "size_of (add_samples nu d vs) = size_of d + length vs"
  "ci_points (add_samples nu d vs) = ci_points d"
  "samples (add_samples nu d vs) = samples d @ vs"
  by (simp_all add: add_samples_def size_of_def)











subsection \<open>The loops over the intervals\<close>












subsection \<open>Runs on the concrete inputs\<close>


lemma run_mscd0:
  "mscd_bootstrap nu0 [1, 2, 3] disp0 (Some [0, 1]) q0 st0 =
     Inr (([1, 2], [23 / 4, 23 / 2], [0, 57 / 20]), \<lparr>cursor = 18, warnings = []\<rparr>)"
  by code_simp


lemma run_mscd_none:
  "mscd_bootstrap nu0 [1, 2, 3] disp0 None q0 st0 = Inl TypeError"
  by code_simp

lemma run_p5:
  "bootstrap_distribution nu2 p5 (d_squared (disp0 ! 0)) 4 0 =
     Inr (\<lparr>samples = [2, 3, 4], ci_points = [5 / 2, 195 / 2], normal = True\<rparr>, True, 12)"
  by code_simp

lemma run_msd5:
  "msd_bootstrap nu2 [1] [disp0 ! 0] p5 st0 =
     Inr (([1], [3], [19 / 20]), \<lparr>cursor = 12, warnings = [normality_warning]\<rparr>)"
  by code_simp






subsection \<open>The claims about the resampler\<close>








text \<open>
  Claim C4 fails on the code. The warning is issued whenever the final size has reached
  \<^verbatim>\<open>max_resamples - n_resamples\<close>, whether or not the distribution is normal. With
  \<^verbatim>\<open>n_resamples = 3\<close> and \<^verbatim>\<open>max_resamples = 5\<close> the first batch of means is 2, 3, 4
  (evenly spaced, so the Shapiro-Wilk statistic is 1 and the sample passes the test); the
  distribution is normal, the loop adds nothing, and yet the warning that the distribution
  is not yet normal is issued. The record is emitted.
\<close>

theorem warning_issued_for_normal_distribution:
  "bootstrap_distribution nu2 p5 (d_squared (disp0 ! 0)) 4 0 =
     Inr (\<lparr>samples = [2, 3, 4], ci_points = [5 / 2, 195 / 2], normal = True\<rparr>, True, 12) \<and>
   msd_bootstrap nu2 [1] [disp0 ! 0] p5 st0 =
     Inr (([1], [3], [19 / 20]), \<lparr>cursor = 12, warnings = [normality_warning]\<rparr>)"
  using run_p5 run_msd5 by simp





text \<open>
  Claim C8 fails on the code. With \<^verbatim>\<open>indices\<close> left at its default \<^verbatim>\<open>None\<close>,
  \<^verbatim>\<open>len(indices)\<close> raises TypeError at the first surviving interval, whereas the call
  with the list of all atoms returns the records.
\<close>

theorem default_indices_raise_type_error:
  "mscd_bootstrap nu0 [1, 2, 3] disp0 None q0 st0 = Inl TypeError \<and>
   mscd_bootstrap nu0 [1, 2, 3] disp0 (Some [0, 1]) q0 st0 =
     Inr (([1, 2], [23 / 4, 23 / 2], [0, 57 / 20]), \<lparr>cursor = 18, warnings = []\<rparr>)"
  using run_mscd_none run_mscd0 by simp




section \<open>Properties of the positive-definite check and repair\<close>

subsection \<open>The Cholesky recurrence succeeds exactly on positive quadratic forms\<close>

lemma qf_Suc:
  "qf (Suc n) A x = A 0 0 * (x 0)\<^sup>2 + x 0 * (\<Sum>j<n. A 0 (Suc j) * x (Suc j))
     + x 0 * (\<Sum>i<n. A (Suc i) 0 * x (Suc i))
     + qf n (\<lambda>i j. A (Suc i) (Suc j)) (\<lambda>i. x (Suc i))"
  unfolding qf_def
  by (simp add: sum.lessThan_Suc_shift sum.distrib sum_distrib_left power2_eq_square algebra_simps
      del: sum.lessThan_Suc)

lemma qf_sub_outer:
  "qf n (\<lambda>i j. B i j - c i * c j) y = qf n B y - (\<Sum>i<n. c i * y i)\<^sup>2"
proof -
  have "(\<Sum>i<n. c i * y i)\<^sup>2 = (\<Sum>i<n. \<Sum>j<n. y i * (c i * c j) * y j)"
    unfolding power2_eq_square sum_product
    by (intro sum.cong refl) (simp add: algebra_simps)
  then show ?thesis
    unfolding qf_def by (simp add: algebra_simps sum_subtractf)
qed

lemma lower_entry_shift:
  "lower_entry (\<lambda>i j. A (Suc i) (Suc j) - c i * c j) = (\<lambda>i j. lower_entry A (Suc i) (Suc j) - c i * c j)"
  by (auto simp: lower_entry_def fun_eq_iff)

lemma qf_lower_step:
  assumes a: "0 < A 0 0"
  defines "l \<equiv> sqrt (A 0 0)"
  defines "c \<equiv> (\<lambda>i. A (Suc i) 0 / l)"
  shows "qf (Suc n) (lower_entry A) x =
           (l * x 0 + (\<Sum>i<n. c i * x (Suc i)))\<^sup>2 +
           qf n (lower_entry (\<lambda>i j. A (Suc i) (Suc j) - c i * c j)) (\<lambda>i. x (Suc i))"
proof -
  have l: "l * l = A 0 0" "l \<noteq> 0" using a by (simp_all add: l_def)
  have lc: "\<And>i. l * c i = A (Suc i) 0" using l by (simp add: c_def)
  have s: "(\<Sum>i<n. A (Suc i) 0 * x (Suc i)) = l * (\<Sum>i<n. c i * x (Suc i))"
    by (simp add: sum_distrib_left lc mult.assoc [symmetric])
  have "qf (Suc n) (lower_entry A) x = A 0 0 * (x 0)\<^sup>2 + 2 * x 0 * (\<Sum>i<n. A (Suc i) 0 * x (Suc i))
     + qf n (\<lambda>i j. lower_entry A (Suc i) (Suc j)) (\<lambda>i. x (Suc i))"
    by (simp add: qf_Suc lower_entry_def)
  also have "\<dots> = (l * x 0 + (\<Sum>i<n. c i * x (Suc i)))\<^sup>2
      + (qf n (\<lambda>i j. lower_entry A (Suc i) (Suc j)) (\<lambda>i. x (Suc i)) - (\<Sum>i<n. c i * x (Suc i))\<^sup>2)"
    unfolding s l(1) [symmetric] by (simp add: power2_eq_square algebra_simps)
  finally show ?thesis
    by (simp add: lower_entry_shift qf_sub_outer)
qed


lemma qf_zero: "(\<And>i. i < n \<Longrightarrow> x i = 0) \<Longrightarrow> qf n A x = 0"
  by (simp add: qf_def)

lemma chol_Suc_pos:
  assumes "0 < A 0 0"
  shows "(\<exists>L. chol (Suc n) A = Inr L) \<longleftrightarrow>
         (\<exists>L. chol n (\<lambda>i j. A (Suc i) (Suc j) - A (Suc i) 0 / sqrt (A 0 0) * (A (Suc j) 0 / sqrt (A 0 0))) = Inr L)"
  using assms by (auto simp: Let_def split: sum.splits)

lemma qf_pos_Suc_pos:
  assumes a: "0 < A 0 0"
  shows "qf_pos (Suc n) (lower_entry A) \<longleftrightarrow>
         qf_pos n (lower_entry (\<lambda>i j. A (Suc i) (Suc j) - A (Suc i) 0 / sqrt (A 0 0) * (A (Suc j) 0 / sqrt (A 0 0))))"
    (is "?P \<longleftrightarrow> qf_pos n (lower_entry ?S)")
proof
  let ?l = "sqrt (A 0 0)"
  let ?c = "\<lambda>i. A (Suc i) 0 / ?l"
  have lpos: "0 < ?l" using a by simp
  assume P: ?P
  show "qf_pos n (lower_entry ?S)"
    unfolding qf_pos_def
  proof (intro allI impI)
    fix y :: "nat \<Rightarrow> real"
    assume y: "\<exists>i<n. y i \<noteq> 0"
    define x where "x = (\<lambda>k. case k of 0 \<Rightarrow> - (\<Sum>i<n. ?c i * y i) / ?l | Suc i \<Rightarrow> y i)"
    have x0: "?l * x 0 + (\<Sum>i<n. ?c i * x (Suc i)) = 0"
      using lpos by (simp add: x_def)
    from y have "\<exists>i<Suc n. x i \<noteq> 0"
      by (metis Suc_less_eq nat.case(2) x_def)
    with P have "0 < qf (Suc n) (lower_entry A) x" by (simp add: qf_pos_def)
    also have "\<dots> = qf n (lower_entry ?S) (\<lambda>i. x (Suc i))"
      using qf_lower_step [of A n x, OF a] x0 by simp
    also have "(\<lambda>i. x (Suc i)) = y" by (simp add: x_def)
    finally show "0 < qf n (lower_entry ?S) y" .
  qed
next
  let ?l = "sqrt (A 0 0)"
  let ?c = "\<lambda>i. A (Suc i) 0 / ?l"
  have lpos: "0 < ?l" using a by simp
  assume S: "qf_pos n (lower_entry ?S)"
  show ?P
    unfolding qf_pos_def
  proof (intro allI impI)
    fix x :: "nat \<Rightarrow> real"
    assume x: "\<exists>i<Suc n. x i \<noteq> 0"
    have step: "qf (Suc n) (lower_entry A) x =
           (?l * x 0 + (\<Sum>i<n. ?c i * x (Suc i)))\<^sup>2 + qf n (lower_entry ?S) (\<lambda>i. x (Suc i))"
      using qf_lower_step [of A n x, OF a] by simp
    show "0 < qf (Suc n) (lower_entry A) x"
    proof (cases "\<exists>i<n. x (Suc i) \<noteq> 0")
      case True
      with S have "0 < qf n (lower_entry ?S) (\<lambda>i. x (Suc i))" by (simp add: qf_pos_def)
      moreover have "0 \<le> (?l * x 0 + (\<Sum>i<n. ?c i * x (Suc i)))\<^sup>2" by simp
      ultimately show ?thesis unfolding step by linarith
    next
      case False
      then have z: "\<And>i. i < n \<Longrightarrow> x (Suc i) = 0" by blast
      with x have x0: "x 0 \<noteq> 0"
        by (metis less_Suc_eq_0_disj)
      from z have "qf n (lower_entry ?S) (\<lambda>i. x (Suc i)) = 0" by (rule qf_zero)
      moreover from z have "(\<Sum>i<n. ?c i * x (Suc i)) = 0" by simp
      ultimately have "qf (Suc n) (lower_entry A) x = (?l * x 0)\<^sup>2" unfolding step by simp
      with lpos x0 show ?thesis by simp
    qed
  qed
qed

lemma qf_pos_Suc_nonpos:
  assumes "A 0 0 \<le> 0"
  shows "\<not> qf_pos (Suc n) (lower_entry A)"
proof
  assume P: "qf_pos (Suc n) (lower_entry A)"
  define x :: "nat \<Rightarrow> real" where "x = (\<lambda>k. if k = 0 then 1 else 0)"
  have "\<exists>i<Suc n. x i \<noteq> 0" by (auto simp: x_def)
  with P have "0 < qf (Suc n) (lower_entry A) x" by (simp add: qf_pos_def)
  moreover have "qf (Suc n) (lower_entry A) x = A 0 0"
    by (simp add: qf_Suc x_def lower_entry_def qf_zero)
  ultimately show False using assms by simp
qed

lemma chol_succeeds_iff_qf_pos:
  "(\<exists>L. chol n A = Inr L) \<longleftrightarrow> qf_pos n (lower_entry A)"
proof (induction n arbitrary: A)
  case 0
  show ?case by (simp add: qf_pos_def)
next
  case (Suc n)
  show ?case
  proof (cases "0 < A 0 0")
    case True
    from chol_Suc_pos [of A n, OF True] Suc.IH qf_pos_Suc_pos [of A n, OF True] show ?thesis by simp
  next
    case False
    then have "A 0 0 \<le> 0" by simp
    with qf_pos_Suc_nonpos [of A n, OF this] show ?thesis by simp
  qed
qed

lemma check_iff_cholesky:
  "check_positive_definite a = Inr True \<longleftrightarrow> (\<exists>L. cholesky a = Inr L)"
  by (auto simp: check_positive_definite_def split: sum.splits)

lemma chol_error: "chol n A = Inl e \<Longrightarrow> e = LinAlgError"
  by (induction n arbitrary: A) (auto simp: Let_def split: if_splits sum.splits)

lemma cholesky_error: "cholesky a = Inl e \<Longrightarrow> e = LinAlgError"
  by (auto simp: cholesky_def split: if_splits sum.splits dest: chol_error)

lemma check_never_raises:
  "check_positive_definite a = Inr (\<exists>L. cholesky a = Inr L)"
  by (auto simp: check_positive_definite_def split: sum.splits dest: cholesky_error)

lemma cholesky_square_iff:
  assumes "nrows a = ncols a"
  shows "(\<exists>L. cholesky a = Inr L) \<longleftrightarrow> qf_pos (nrows a) (lower_entry (entry a))"
proof -
  have "(\<exists>L. cholesky a = Inr L) \<longleftrightarrow> (\<exists>L. chol (nrows a) (entry a) = Inr L)"
    using assms by (auto simp: cholesky_def split: sum.splits)
  then show ?thesis by (simp add: chol_succeeds_iff_qf_pos)
qed





subsection \<open>Runs on the concrete matrices\<close>







subsection \<open>The claim about the check\<close>






subsection \<open>The repair\<close>

text \<open>
  What the code of \<^verbatim>\<open>find_nearest_positive_definite\<close> settles by itself (claim C6): a
  matrix that passes the check is returned unchanged and without a warning; a matrix
  returned after a repair passes the check, and the warning was issued once. Whether the
  repair returns depends on the external routines.
\<close>

lemma repair_loop_some:
  assumes "repair_loop la sp A k = Some r"
  shows "\<forall>R. r = Inr R \<longrightarrow> check_positive_definite R = Inr True"
  by (rule repair_loop.raw_induct [OF _ assms]) (auto split: sum.splits if_splits)

lemma repair_loop_result:
  "repair_loop la sp A k = Some (Inr R) \<Longrightarrow> check_positive_definite R = Inr True"
  using repair_loop_some by blast

lemma find_nearest_structure:
  "(check_positive_definite m = Inr True \<longrightarrow>
      find_nearest_positive_definite la m = Some (Inr (m, []))) \<and>
   (check_positive_definite m = Inr False \<and>
    find_nearest_positive_definite la m = Some (Inr (R, w)) \<longrightarrow>
      check_positive_definite R = Inr True \<and> w = [repair_warning])"
  by (auto simp: find_nearest_positive_definite_def
      split: sum.splits if_splits option.splits dest: repair_loop_result)


lemma qf_add_diag:
  "qf n (\<lambda>i j. B i j + (if i = j then v else 0)) x = qf n B x + v * (\<Sum>i<n. (x i)\<^sup>2)"
proof -
  have d: "(\<Sum>j<n. x i * (if i = j then v else 0) * x j) = (if i < n then v * (x i)\<^sup>2 else 0)" for i
  proof -
    have "(\<Sum>j<n. x i * (if i = j then v else 0) * x j) =
          (\<Sum>j<n. if i = j then x i * v * x j else 0)"
      by (intro sum.cong refl) simp
    also have "\<dots> = (if i < n then x i * v * x i else 0)"
      by (simp add: sum.delta)
    finally show ?thesis by (simp add: power2_eq_square algebra_simps)
  qed
  have "qf n (\<lambda>i j. B i j + (if i = j then v else 0)) x =
        (\<Sum>i<n. (\<Sum>j<n. x i * B i j * x j) + (\<Sum>j<n. x i * (if i = j then v else 0) * x j))"
    unfolding qf_def
    by (intro sum.cong refl) (simp add: algebra_simps sum.distrib)
  also have "\<dots> = qf n B x + (\<Sum>i<n. v * (x i)\<^sup>2)"
    unfolding d qf_def by (simp add: sum.distrib)
  finally show ?thesis by (simp add: sum_distrib_left)
qed

lemma sum_squares_pos:
  fixes x :: "nat \<Rightarrow> real"
  assumes "\<exists>i<n. x i \<noteq> 0"
  shows "0 < (\<Sum>i<n. (x i)\<^sup>2)"
proof -
  from assms obtain i where i: "i < n" "x i \<noteq> 0" by blast
  have "0 < (x i)\<^sup>2" using i(2) by simp
  also have "(x i)\<^sup>2 \<le> (\<Sum>i<n. (x i)\<^sup>2)"
    using i(1) by (intro member_le_sum) simp_all
  finally show ?thesis .
qed

lemma check_add_eye:
  assumes sq: "nrows A = ncols A"
    and lb: "\<forall>x. ev * (\<Sum>i<nrows A. (x i)\<^sup>2) \<le> quad_form (lower_symmetric A) x"
    and sp: "0 < sp"
  shows "check_positive_definite (add_eye A (- ev * (real 1)\<^sup>2 + sp)) = Inr True"
proof -
  let ?A' = "add_eye A (- ev * (real 1)\<^sup>2 + sp)"
  have sq': "nrows ?A' = ncols ?A'" using sq by (simp add: add_eye_def)
  have le: "lower_entry (entry ?A') = (\<lambda>i j. lower_entry (entry A) i j + (if i = j then sp - ev else 0))"
    by (auto simp: add_eye_def lower_entry_def fun_eq_iff)
  have q: "quad_form (lower_symmetric A) x = qf (nrows A) (lower_entry (entry A)) x" for x
    using sq by (simp add: quad_form_def qf_def lower_symmetric_def)
  have "qf_pos (nrows ?A') (lower_entry (entry ?A'))"
    unfolding qf_pos_def
  proof (intro allI impI)
    fix x :: "nat \<Rightarrow> real"
    assume "\<exists>i<nrows ?A'. x i \<noteq> 0"
    then have pos: "0 < (\<Sum>i<nrows A. (x i)\<^sup>2)"
      by (intro sum_squares_pos) (simp add: add_eye_def)
    have "qf (nrows ?A') (lower_entry (entry ?A')) x =
          qf (nrows A) (lower_entry (entry A)) x + (sp - ev) * (\<Sum>i<nrows A. (x i)\<^sup>2)"
      unfolding le by (simp add: qf_add_diag add_eye_def)
    moreover have "ev * (\<Sum>i<nrows A. (x i)\<^sup>2) \<le> qf (nrows A) (lower_entry (entry A)) x"
      using lb q by simp
    moreover have "0 < sp * (\<Sum>i<nrows A. (x i)\<^sup>2)" using sp pos by simp
    ultimately show "0 < qf (nrows ?A') (lower_entry (entry ?A')) x"
      by (simp add: algebra_simps)
  qed
  then show ?thesis
    using cholesky_square_iff [OF sq'] by (simp add: check_never_raises)
qed

lemma repair_loop_one_update:
  assumes sq: "nrows A = ncols A"
    and nc: "check_positive_definite A = Inr False"
    and ev: "min_real_eigval la A = Inr ev"
    and lb: "\<forall>x. ev * (\<Sum>i<nrows A. (x i)\<^sup>2) \<le> quad_form (lower_symmetric A) x"
    and sp: "0 < sp"
  shows "repair_loop la sp A 1 = Some (Inr (add_eye A (- ev * (real 1)\<^sup>2 + sp)))"
proof -
  have "repair_loop la sp (add_eye A (- ev * (real 1)\<^sup>2 + sp)) (1 + 1) =
        Some (Inr (add_eye A (- ev * (real 1)\<^sup>2 + sp)))"
    using check_add_eye [OF sq lb sp] by (subst repair_loop.simps) simp
  then show ?thesis
    using nc ev by (subst repair_loop.simps) simp
qed

lemma find_nearest_returns:
  assumes "check_positive_definite m = Inr False"
    and "cov_nearest la m = Inr A"
    and "nrows A = ncols A"
    and "check_positive_definite A = Inr False"
    and "min_real_eigval la A = Inr ev"
    and "\<forall>x. ev * (\<Sum>i<nrows A. (x i)\<^sup>2) \<le> quad_form (lower_symmetric A) x"
    and "0 < spacing_norm la m"
  shows "find_nearest_positive_definite la m =
           Some (Inr (add_eye A (- ev * (real 1)\<^sup>2 + spacing_norm la m), [repair_warning]))"
  using assms(1,2,4) repair_loop_one_update [OF assms(3,4,5,6,7)]
  by (simp add: find_nearest_positive_definite_def)

text \<open>
  In exact arithmetic the loop ends after its first update, provided the projection is
  square, the eigenvalue routine returns a lower bound of its quadratic form, and the
  spacing is positive; for instance on the singular matrix of ones.
\<close>

lemma find_nearest_run:
  "find_nearest_positive_definite la0 m_ones =
     Some (Inr (add_eye m_ones (- 0 * (real 1)\<^sup>2 + 1), [repair_warning]))"
proof -
  have c: "check_positive_definite m_ones = Inr False"
    by (simp add: check_positive_definite_def cholesky_def m_ones_def of_rows_def
        numeral_2_eq_2 Let_def)
  have q: "quad_form (lower_symmetric m_ones) x = (x 0 + x 1)\<^sup>2" for x
    by (simp add: quad_form_def lower_symmetric_def lower_entry_def m_ones_def of_rows_def
        numeral_2_eq_2 power2_eq_square algebra_simps)
  have lb: "\<forall>x. 0 * (\<Sum>i<nrows m_ones. (x i)\<^sup>2) \<le> quad_form (lower_symmetric m_ones) x"
    by (simp add: q)
  show ?thesis
    using find_nearest_returns [of m_ones la0 m_ones 0] c lb
    by (simp add: la0_def m_ones_def of_rows_def)
qed

section \<open>Properties of the diffusion relationship\<close>

lemma Distribution_default_ci:
  "\<exists>D. Distribution nu vs [2.5, 97.5] = Inr D \<and> samples D = vs"
  by (simp add: Distribution_def add_samples_def)

text \<open>
  Claim C9. When the fit yields a point estimate \<open>s\<close> of the slope, the constructed
  relationship holds as \<^verbatim>\<open>diffusion_coefficient\<close> the point value \<open>s / 6\<close> converted to
  centimeter squared per second. When the sampler yields the posterior slopes \<open>ss\<close>,
  \<^verbatim>\<open>sample()\<close> replaces it by a distribution in that unit whose samples are the slopes
  of \<open>ss\<close>, each divided by 6 and converted in the same way.
\<close>

theorem diffusion_coefficient_from_slope:
  "(fit delta_t msd msd_error = Point s # vs \<longrightarrow>
      (\<exists>d. Diffusion fit delta_t msd msd_error tu mu = Inr d \<and>
           diffusion_coefficient d = PointValue (slope_to_coefficient tu mu s) \<and>
           units_of (slope_to_coefficient tu mu s) = centimeter_squared_per_second \<and>
           magnitude (slope_to_coefficient tu mu s) =
             s / 6 * (mu / tu) / centimeter_squared_per_second)) \<and>
   (mcmc self = Samples ss # ws \<longrightarrow>
      (\<exists>d D. sample nu mcmc self = Inr d \<and>
           diffusion_coefficient d = Posterior D centimeter_squared_per_second \<and>
           samples D =
             map (\<lambda>s. magnitude (slope_to_coefficient (abscissa_unit self) (ordinate_unit self) s))
               ss))"
proof (intro conjI impI)
  assume "fit delta_t msd msd_error = Point s # vs"
  then show "\<exists>d. Diffusion fit delta_t msd msd_error tu mu = Inr d \<and>
           diffusion_coefficient d = PointValue (slope_to_coefficient tu mu s) \<and>
           units_of (slope_to_coefficient tu mu s) = centimeter_squared_per_second \<and>
           magnitude (slope_to_coefficient tu mu s) =
             s / 6 * (mu / tu) / centimeter_squared_per_second"
    by (simp add: Diffusion_def slope_to_coefficient_def to_units_def)
next
  assume m: "mcmc self = Samples ss # ws"
  let ?vs = "map (\<lambda>s. s * magnitude
                 (to_units \<lparr>magnitude = 1, units_of = ordinate_unit self / abscissa_unit self\<rparr>
                    centimeter_squared_per_second) / 6) ss"
  from Distribution_default_ci [of nu ?vs] obtain D where
    D: "Distribution nu ?vs [2.5, 97.5] = Inr D" "samples D = ?vs" by blast
  have eq: "?vs = map (\<lambda>s. magnitude (slope_to_coefficient (abscissa_unit self) (ordinate_unit self) s)) ss"
    by (simp add: slope_to_coefficient_def to_units_def)
  let ?d = "self\<lparr>variables := Samples ss # ws,
                 diffusion_coefficient := Posterior D centimeter_squared_per_second\<rparr>"
  have "sample nu mcmc self = Inr ?d"
    using m D(1) by (simp add: sample_def Let_def)
  moreover have "diffusion_coefficient ?d = Posterior D centimeter_squared_per_second"
    by simp
  moreover have "samples D =
      map (\<lambda>s. magnitude (slope_to_coefficient (abscissa_unit self) (ordinate_unit self) s)) ss"
    using D(2) eq by simp
  ultimately show "\<exists>d D. sample nu mcmc self = Inr d \<and>
           diffusion_coefficient d = Posterior D centimeter_squared_per_second \<and>
           samples D =
             map (\<lambda>s. magnitude (slope_to_coefficient (abscissa_unit self) (ordinate_unit self) s))
               ss"
    by blast
qed

theorem diffusion_coefficient_from_slope_witness:
  "Diffusion fit0 [1, 2] [6, 12] [1, 1] femtoseconds angstrom_squared = Inr d0 \<and>
   magnitude (slope_to_coefficient femtoseconds angstrom_squared 6) = 1 / 10 \<and>
   (\<exists>d D. sample nu0 mcmc0 d0 = Inr d \<and>
      diffusion_coefficient d = Posterior D centimeter_squared_per_second \<and>
      samples D = [1 / 10, 1 / 5])"
proof -
  have f: "fit0 [1, 2] [6, 12] [1, 1] = Point 6 # [Point 0]" by (simp add: fit0_def)
  have v: "slope_to_coefficient femtoseconds angstrom_squared 6 =
             \<lparr>magnitude = 1 / 10, units_of = centimeter_squared_per_second\<rparr>"
    "slope_to_coefficient femtoseconds angstrom_squared 12 =
             \<lparr>magnitude = 1 / 5, units_of = centimeter_squared_per_second\<rparr>"
    by (simp_all add: slope_to_coefficient_def to_units_def femtoseconds_def angstrom_squared_def
        centimeter_squared_per_second_def)
  have a: "Diffusion fit0 [1, 2] [6, 12] [1, 1] femtoseconds angstrom_squared = Inr d0"
    using v by (simp add: Diffusion_def fit0_def d0_def slope_to_coefficient_def)
  have m: "mcmc0 d0 = Samples [6, 12] # [Samples [0, 0]]" by (simp add: mcmc0_def)
  have b: "\<exists>d D. sample nu0 mcmc0 d0 = Inr d \<and>
      diffusion_coefficient d = Posterior D centimeter_squared_per_second \<and>
      samples D = [1 / 10, 1 / 5]"
    using diffusion_coefficient_from_slope
      [of fit0 "[1, 2]" "[6, 12]" "[1, 1]" 6 "[Point 0]" femtoseconds angstrom_squared
        mcmc0 d0 "[6, 12]" "[Samples [0, 0]]" nu0] m v
    by (simp add: d0_def)
  have c: "magnitude (slope_to_coefficient femtoseconds angstrom_squared 6) = 1 / 10"
    using diffusion_coefficient_from_slope
      [of fit0 "[1, 2]" "[6, 12]" "[1, 1]" 6 "[Point 0]" femtoseconds angstrom_squared
        mcmc0 d0 "[6, 12]" "[Samples [0, 0]]" nu0] f v
    by simp
  from a b c show ?thesis by blast
qed

end
